theory Spec2Isabelle
  imports
    Complex_Main
    "HOL-Library.AList"
    "HOL-Library.Char_ord"
    "HOL-Library.List_Lexorder"
    "HOL-Library.Word"
begin

section \<open>Data model of \<open>data.py\<close>\<close>

text \<open>
  The record store is the SQLAlchemy session of \<open>data.py\<close>. It is modelled as an
  in-memory table per entity whose calls answer; the \<open>except SQLAlchemyError\<close> handlers
  of the source are therefore never entered in this model. A table with a primary key is
  an association list from the key to the row, in the order \<open>query.all()\<close> yields
  the rows. Timestamps (\<open>time()\<close>, a Python float) are real numbers; the rounding of
  float arithmetic is not modelled.
\<close>

subsection \<open>Python values\<close>

text \<open>The content of a JSON column: \<open>fields\<close> of a device is a JSON object.\<close>

datatype json =
    JNull
  | JBool bool
  | JInt int
  | JStr string
  | JArr "json list"
  | JObj "(string \<times> json) list"

type_synonym pydict = "(string \<times> json) list"

type_synonym bytes = "8 word list"

text \<open>The exceptions that are raised in the modelled part of \<open>data.py\<close>.\<close>

datatype error =
    APIUnsuccessful int string
  | AttributeError
  | FileNotFoundError
  | IsADirectoryError
  | OverflowError

text \<open>
  Truth value of an optional string, as \<open>if not x\<close> tests it: \<open>None\<close> and the
  empty string are false.
\<close>

definition truthy :: "string option \<Rightarrow> bool" where
  "truthy x = (case x of None \<Rightarrow> False | Some v \<Rightarrow> v \<noteq> [])"

text \<open>\<open>d[k] = v\<close> on a dict keeps the position of an existing key and appends a new one.\<close>

definition dict_set :: "('k \<times> 'v) list \<Rightarrow> 'k \<Rightarrow> 'v \<Rightarrow> ('k \<times> 'v) list" where
  "dict_set d k v = AList.update k v d"

text \<open>\<open>d.update(other)\<close>, and \<open>dict(items)\<close> as the update of an empty dict.\<close>

definition dict_update :: "('k \<times> 'v) list \<Rightarrow> ('k \<times> 'v) list \<Rightarrow> ('k \<times> 'v) list" where
  "dict_update d other = foldl (\<lambda>acc (k, v). dict_set acc k v) d other"

definition dict_of_items :: "('k \<times> 'v) list \<Rightarrow> ('k \<times> 'v) list" where
  "dict_of_items items = dict_update [] items"

text \<open>
  \<open>dict(sorted(d.items()))\<close>: the keys of a dict are distinct, so the tuples are
  ordered by their key alone; strings compare lexicographically by code point.
\<close>

definition dict_sorted :: "(string \<times> 'v) list \<Rightarrow> (string \<times> 'v) list" where
  "dict_sorted d = dict_of_items (sort_key fst d)"

subsection \<open>Configuration\<close>

text \<open>
  \<open>_StatusItemModel\<close> and \<open>ConfigModel\<close> are declared in \<open>models.py\<close>; the records
  below hold the attributes that \<open>data.py\<close> reads from them.
\<close>

record status_item =
  item_id :: int
  item_name :: string
  item_desc :: string
  item_color :: string

record config =
  status_list :: "status_item list"
  using_first :: bool
  sorted_flag :: bool
  not_using :: "string option"
  metrics_enabled :: bool
  allow_list :: "string list"
  cache_age :: real
  debug :: bool

subsection \<open>Rows\<close>

text \<open>\<open>_MainData\<close>: the single row of table \<open>main\<close>.\<close>

record main_data =
  main_status :: int
  main_private_mode :: bool
  main_last_updated :: real

text \<open>
  \<open>_DeviceStatusData\<close>, keyed by its \<open>id\<close> in the table. The column
  \<open>last_updated\<close> of a device is written by the column hooks of the ORM alone and is
  left out.
\<close>

record device =
  dev_show_name :: string
  dev_using :: "bool option"
  dev_status :: "string option"
  dev_fields :: pydict

text \<open>\<open>_MetricsMetaData\<close>: the stored period markers.\<close>

record metrics_meta =
  meta_today :: string
  meta_week :: string
  meta_month :: string
  meta_year :: string

text \<open>\<open>_MetricsData\<close>, keyed by its \<open>path\<close> in the table.\<close>

record metric =
  daily :: int
  weekly :: int
  monthly :: int
  yearly :: int
  total :: int

record db =
  main :: main_data
  devices :: "(string \<times> device) list"
  meta :: "metrics_meta option"
  metrics :: "(string \<times> metric) list"

section \<open>Main data access\<close>

definition status_id :: "db \<Rightarrow> int" where
  "status_id s = main_status (main s)"

definition private_mode :: "db \<Rightarrow> bool" where
  "private_mode s = main_private_mode (main s)"

definition last_updated :: "db \<Rightarrow> real" where
  "last_updated s = main_last_updated (main s)"

definition set_last_updated :: "real \<Rightarrow> db \<Rightarrow> db" where
  "set_last_updated v s = s\<lparr>main := (main s)\<lparr>main_last_updated := v\<rparr>\<rparr>"

section \<open>Device list\<close>

text \<open>\<open>_raw_device_list\<close>: empty in private mode, else \<open>{d.id: d for d in devices}\<close>.\<close>

definition raw_device_list :: "db \<Rightarrow> (string \<times> device) list" where
  "raw_device_list s = (if private_mode s then [] else dict_of_items (devices s))"

text \<open>
  \<open>_raw_device_list_dict\<close> turns every row into a plain dict with \<open>to_primitive\<close>;
  the record \<open>device\<close> stands for that dict as well, \<open>v.get('using')\<close> being
  \<open>dev_using v\<close>.
\<close>

definition raw_device_list_dict :: "db \<Rightarrow> (string \<times> device) list" where
  "raw_device_list_dict s = raw_device_list s"

text \<open>The replacement of the status text of a device that is not in use.\<close>

definition lock_status :: "config \<Rightarrow> device \<Rightarrow> device" where
  "lock_status c v =
     (if truthy (not_using c) then v\<lparr>dev_status := not_using c\<rparr> else v)"

text \<open>
  One pass of the loop of the \<open>using_first\<close> branch over an item, on the three dicts
  (in use, not in use, unknown).
\<close>

definition group_step ::
  "config \<Rightarrow> (string \<times> device) list \<times> (string \<times> device) list \<times> (string \<times> device) list
     \<Rightarrow> string \<times> device
     \<Rightarrow> (string \<times> device) list \<times> (string \<times> device) list \<times> (string \<times> device) list" where
  "group_step c acc kv =
     (case acc of (devicelst, device_not_using, device_unknown) \<Rightarrow>
      case kv of (k, v) \<Rightarrow>
        if dev_using v = Some True then (dict_set devicelst k v, device_not_using, device_unknown)
        else if dev_using v = Some False
          then (devicelst, dict_set device_not_using k (lock_status c v), device_unknown)
        else (devicelst, device_not_using, dict_set device_unknown k v))"

definition device_list :: "config \<Rightarrow> db \<Rightarrow> (string \<times> device) list" where
  "device_list c s =
     (if private_mode s then []
      else if using_first c then
        (case foldl (group_step c) ([], [], []) (raw_device_list_dict s) of
           (devicelst, device_not_using, device_unknown) \<Rightarrow>
             (if sorted_flag c
              then dict_update (dict_update (dict_sorted devicelst) (dict_sorted device_not_using))
                     (dict_sorted device_unknown)
              else dict_update (dict_update devicelst device_not_using) device_unknown))
      else
        (let devicelst = raw_device_list_dict s;
             devicelst = (if truthy (not_using c)
                          then map (\<lambda>(d, v). (d, if dev_using v = Some False
                                                   then v\<lparr>dev_status := not_using c\<rparr> else v))
                                 devicelst
                          else devicelst)
         in if sorted_flag c then dict_sorted devicelst else devicelst))"

section \<open>Status catalog\<close>

text \<open>
  \<open>xs[i]\<close> on a Python list: a negative index counts from the end, and an index
  outside \<open>-len(xs) .. len(xs) - 1\<close> raises \<open>IndexError\<close> (here \<open>None\<close>).
\<close>

definition py_index :: "'a list \<Rightarrow> int \<Rightarrow> 'a option" where
  "py_index xs i =
     (let n = int (length xs);
          j = (if i < 0 then n + i else i)
      in if 0 \<le> j \<and> j < n then Some (xs ! nat j) else None)"

text \<open>The text of \<open>desc\<close> in the fallback item, as its UTF-8 bytes.\<close>

definition unknown_desc :: string where
  "unknown_desc = map char_of
     [0xE6, 0x9C, 0xAA, 0xE7, 0x9F, 0xA5, 0xE7, 0x9A, 0x84, 0xE6, 0xA0, 0x87, 0xE8, 0xAF, 0x86,
      0xE7, 0xAC, 0xA6, 0xEF, 0xBC, 0x8C, 0xE5, 0x8F, 0xAF, 0xE8, 0x83, 0xBD, 0xE6, 0x98, 0xAF,
      0xE9, 0x85, 0x8D, 0xE7, 0xBD, 0xAE, 0xE9, 0x97, 0xAE, 0xE9, 0xA2, 0x98, 0xE3, 0x80, 0x82 :: nat]"

text \<open>
  \<open>get_status\<close>: the catalog entry at the index, or on \<open>IndexError\<close> the fallback
  item, whose \<open>id\<close> is the stored \<open>status_id\<close> (not the argument).
\<close>

definition get_status :: "config \<Rightarrow> db \<Rightarrow> int \<Rightarrow> bool \<times> status_item" where
  "get_status c s sid =
     (case py_index (status_list c) sid of
        Some item \<Rightarrow> (True, item)
      | None \<Rightarrow>
          (False, \<lparr>item_id = status_id s, item_name = ''Unknown'',
                   item_desc = unknown_desc, item_color = ''error''\<rparr>))"

definition status :: "config \<Rightarrow> db \<Rightarrow> bool \<times> status_item" where
  "status c s = get_status c s (status_id s)"

section \<open>Device registry\<close>

text \<open>
  Modelled from the spec: \<open>deep_merge_dict\<close> of \<open>utils.py\<close>, which is not among the
  sources. For each key of the new mapping, if the old and the new value are both
  mappings they are merged recursively, else the new value replaces the old one; the
  keys of the old mapping that the new one lacks stay.
\<close>

function deep_merge_dict :: "pydict \<Rightarrow> pydict \<Rightarrow> pydict" where
  "deep_merge_dict base [] = base"
| "deep_merge_dict base ((k, v) # rest) =
     deep_merge_dict
       (dict_set base k
          (case map_of base k of
             Some (JObj old) \<Rightarrow>
               (case v of JObj new \<Rightarrow> JObj (deep_merge_dict old new) | _ \<Rightarrow> v)
           | _ \<Rightarrow> v))
       rest"
  by pat_completeness auto
termination
  by (relation "measure (\<lambda>(base, new). size (JObj new))") auto

text \<open>\<open>device_get\<close>: \<open>query.filter_by(id=id).first()\<close>.\<close>

definition device_get :: "db \<Rightarrow> string \<Rightarrow> device option" where
  "device_get s i = map_of (devices s) i"

text \<open>
  The call \<open>u.deep_merge_dict(device.fields, fields)\<close> of \<open>device_set\<close>. On a
  stored row \<open>device.fields\<close> is the mapping of the row. On a row just made by
  \<open>_DeviceStatusData()\<close> it is \<open>None\<close>: the \<open>default=dict\<close> of the column is
  applied at INSERT, and nothing is written before the call. What the helper does with
  \<open>None\<close> is told neither by the sources nor by the spec, so it is the parameter
  \<open>merge_none\<close>: from the new mapping to the mapping returned or the exception raised.
\<close>

definition call_deep_merge_dict ::
  "(pydict \<Rightarrow> error + pydict) \<Rightarrow> pydict option \<Rightarrow> pydict \<Rightarrow> error + pydict" where
  "call_deep_merge_dict merge_none base new =
     (case base of
        None \<Rightarrow> merge_none new
      | Some b \<Rightarrow> Inr (deep_merge_dict b new))"

text \<open>
  A row made by \<open>_DeviceStatusData()\<close> and not yet written: \<open>using\<close> and
  \<open>status\<close> are \<open>None\<close>. Its \<open>show_name\<close> and \<open>fields\<close> here are never
  read: \<open>device_set\<close> has a non-empty \<open>show_name\<close> at hand when it makes a row,
  and takes \<open>device.fields\<close> of a new row to be \<open>None\<close>.
\<close>

definition blank_device :: device where
  "blank_device = \<lparr>dev_show_name = [], dev_using = None, dev_status = None, dev_fields = []\<rparr>"

text \<open>
  \<open>device_set\<close>. The argument \<open>now\<close> is the value of \<open>time()\<close> that the last
  line stores. An exception leaves the store as it was: each is raised before the
  session is committed.
\<close>

definition device_set ::
  "(pydict \<Rightarrow> error + pydict) \<Rightarrow> string option \<Rightarrow> string option \<Rightarrow> bool option
     \<Rightarrow> string option \<Rightarrow> pydict \<Rightarrow> real \<Rightarrow> db \<Rightarrow> (error + unit) \<times> db" where
  "device_set merge_none id' show_name using' status' fields' now s =
     (let device = (case id' of None \<Rightarrow> None | Some i \<Rightarrow> device_get s i)
      in case id' of
           None \<Rightarrow> (Inl (APIUnsuccessful 400 ''device id cannot be empty!''), s)
         | Some i \<Rightarrow>
             if i = [] then (Inl (APIUnsuccessful 400 ''device id cannot be empty!''), s)
             else if device = None \<and> \<not> truthy show_name
               then (Inl (APIUnsuccessful 400 ''device show_name cannot be empty!''), s)
             else
               (let device_fields = map_option dev_fields device;
                    device = (case device of None \<Rightarrow> blank_device | Some d \<Rightarrow> d);
                    device = device\<lparr>dev_show_name :=
                      (case show_name of
                         None \<Rightarrow> dev_show_name device
                       | Some n \<Rightarrow> if n = [] then dev_show_name device else n)\<rparr>;
                    device = device\<lparr>dev_using :=
                      (case using' of None \<Rightarrow> dev_using device | Some b \<Rightarrow> Some b)\<rparr>;
                    device = device\<lparr>dev_status :=
                      (if truthy status' then status' else dev_status device)\<rparr>
                in case call_deep_merge_dict merge_none device_fields fields' of
                     Inl e \<Rightarrow> (Inl e, s)
                   | Inr merged \<Rightarrow>
                       (Inr (),
                        set_last_updated now
                          (s\<lparr>devices :=
                               dict_set (devices s) i (device\<lparr>dev_fields := merged\<rparr>)\<rparr>))))"




section \<open>Metrics\<close>

definition zero_metric :: metric where
  "zero_metric = \<lparr>daily = 0, weekly = 0, monthly = 0, yearly = 0, total = 0\<rparr>"

text \<open>
  The counters are \<open>Integer\<close> columns. \<open>db.session.commit()\<close> raises
  \<open>OverflowError\<close> when a counter it is to write lies outside the signed 64-bit
  range, and then nothing is stored; \<open>except SQLAlchemyError\<close> does not catch it.
\<close>

definition int64_range :: "int \<Rightarrow> bool" where
  "int64_range n = (- (2 ^ 63) \<le> n \<and> n < 2 ^ 63)"

definition metric_fits :: "metric \<Rightarrow> bool" where
  "metric_fits m =
     (int64_range (daily m) \<and> int64_range (weekly m) \<and> int64_range (monthly m) \<and>
      int64_range (yearly m) \<and> int64_range (total m))"

text \<open>
  \<open>record_metrics\<close>: it returns at once for a path outside the allow-list, and else
  commits the record of the path with its counters added to or set.
\<close>

definition record_metrics ::
  "config \<Rightarrow> string \<Rightarrow> int \<Rightarrow> bool \<Rightarrow> db \<Rightarrow> (error + unit) \<times> db" where
  "record_metrics c path count override s =
     (if path \<notin> set (allow_list c) then (Inr (), s)
      else
        (let metric = (case map_of (metrics s) path of None \<Rightarrow> zero_metric | Some m \<Rightarrow> m);
             metric =
               (if override
                then \<lparr>daily = count, weekly = count, monthly = count, yearly = count,
                      total = count\<rparr>
                else \<lparr>daily = daily metric + count, weekly = weekly metric + count,
                      monthly = monthly metric + count, yearly = yearly metric + count,
                      total = total metric + count\<rparr>)
         in if metric_fits metric
            then (Inr (), s\<lparr>metrics := dict_set (metrics s) path metric\<rparr>)
            else (Inl OverflowError, s)))"

text \<open>\<open>metric_data_index\<close>: the five counters of path \<open>/\<close>.\<close>

definition metric_data_index :: "db \<Rightarrow> int \<times> int \<times> int \<times> int \<times> int" where
  "metric_data_index s =
     (case map_of (metrics s) ''/'' of
        Some m \<Rightarrow> (daily m, weekly m, monthly m, yearly m, total m)
      | None \<Rightarrow> (0, 0, 0, 0, 0))"

text \<open>
  What \<open>_metrics_refresh\<close> reads of \<open>datetime.now(tz)\<close>: year, month, day and the
  week of \<open>isocalendar()\<close>, all computed by the datetime library.
\<close>

record datetime =
  dt_year :: nat
  dt_month :: nat
  dt_day :: nat
  dt_iso_week :: nat

text \<open>The decimal digits of a number, as an f-string prints it.\<close>

fun str_nat :: "nat \<Rightarrow> string" where
  "str_nat n =
     (if n < 10 then [''0123456789'' ! n]
      else str_nat (n div 10) @ [''0123456789'' ! (n mod 10)])"

declare str_nat.simps [simp del]

definition key_year :: "datetime \<Rightarrow> string" where
  "key_year now = str_nat (dt_year now)"

definition key_month :: "datetime \<Rightarrow> string" where
  "key_month now = str_nat (dt_year now) @ ''-'' @ str_nat (dt_month now)"

definition key_today :: "datetime \<Rightarrow> string" where
  "key_today now =
     str_nat (dt_year now) @ ''-'' @ str_nat (dt_month now) @ ''-'' @ str_nat (dt_day now)"

definition key_week :: "datetime \<Rightarrow> string" where
  "key_week now = str_nat (dt_year now) @ ''-'' @ str_nat (dt_iso_week now)"

text \<open>The four loops \<open>for i in raw_metrics: i.<counter> = 0\<close>.\<close>

definition reset_daily :: "(string \<times> metric) list \<Rightarrow> (string \<times> metric) list" where
  "reset_daily ms = map (\<lambda>(p, i). (p, i\<lparr>daily := 0\<rparr>)) ms"

definition reset_weekly :: "(string \<times> metric) list \<Rightarrow> (string \<times> metric) list" where
  "reset_weekly ms = map (\<lambda>(p, i). (p, i\<lparr>weekly := 0\<rparr>)) ms"

definition reset_monthly :: "(string \<times> metric) list \<Rightarrow> (string \<times> metric) list" where
  "reset_monthly ms = map (\<lambda>(p, i). (p, i\<lparr>monthly := 0\<rparr>)) ms"

definition reset_yearly :: "(string \<times> metric) list \<Rightarrow> (string \<times> metric) list" where
  "reset_yearly ms = map (\<lambda>(p, i). (p, i\<lparr>yearly := 0\<rparr>)) ms"

text \<open>
  \<open>_metrics_refresh\<close>. Without a row of \<open>metrics_meta\<close> (metrics disabled at start)
  \<open>meta_metrics\<close> is \<open>None\<close> and reading \<open>meta_metrics.today\<close> raises
  \<open>AttributeError\<close>, which the handler for \<open>SQLAlchemyError\<close> lets through.
\<close>

definition metrics_refresh :: "datetime \<Rightarrow> db \<Rightarrow> (error + unit) \<times> db" where
  "metrics_refresh now s =
     (case meta s of
        None \<Rightarrow> (Inl AttributeError, s)
      | Some meta_metrics \<Rightarrow>
          (let raw_metrics = metrics s;
               (meta_metrics, raw_metrics) =
                 (if key_today now \<noteq> meta_today meta_metrics
                  then (meta_metrics\<lparr>meta_today := key_today now\<rparr>, reset_daily raw_metrics)
                  else (meta_metrics, raw_metrics));
               (meta_metrics, raw_metrics) =
                 (if key_week now \<noteq> meta_week meta_metrics
                  then (meta_metrics\<lparr>meta_week := key_week now\<rparr>, reset_weekly raw_metrics)
                  else (meta_metrics, raw_metrics));
               (meta_metrics, raw_metrics) =
                 (if key_month now \<noteq> meta_month meta_metrics
                  then (meta_metrics\<lparr>meta_month := key_month now\<rparr>, reset_monthly raw_metrics)
                  else (meta_metrics, raw_metrics));
               (meta_metrics, raw_metrics) =
                 (if key_year now \<noteq> meta_year meta_metrics
                  then (meta_metrics\<lparr>meta_year := key_year now\<rparr>, reset_yearly raw_metrics)
                  else (meta_metrics, raw_metrics))
           in (Inr (), s\<lparr>meta := Some meta_metrics, metrics := raw_metrics\<rparr>)))"

text \<open>
  The store that \<open>__init__\<close> leaves when it starts on an empty database at time
  \<open>t\<close>: the row of \<open>main\<close> with its column defaults, the row of \<open>metrics_meta\<close>
  (four empty markers) when metrics are enabled, and no device and no metric.
\<close>

definition fresh :: "config \<Rightarrow> real \<Rightarrow> db" where
  "fresh c t =
     \<lparr>main = \<lparr>main_status = 0, main_private_mode = False, main_last_updated = t\<rparr>,
      devices = [],
      meta = (if metrics_enabled c
              then Some \<lparr>meta_today = [], meta_week = [], meta_month = [], meta_year = []\<rparr>
              else None),
      metrics = []\<rparr>"

text \<open>
  A call of the metrics engine, and a sequence of calls run in order: a call that raises
  leaves the store as it was, and the next call goes on from there.
\<close>

datatype metrics_op =
    Record string int bool
  | Refresh datetime

fun run_op :: "config \<Rightarrow> db \<Rightarrow> metrics_op \<Rightarrow> db" where
  "run_op c s (Record path count override) = snd (record_metrics c path count override s)"
| "run_op c s (Refresh now) = snd (metrics_refresh now s)"

definition run_ops :: "config \<Rightarrow> metrics_op list \<Rightarrow> db \<Rightarrow> db" where
  "run_ops c ops s = foldl (run_op c) s ops"

text \<open>The five counters of a record, and of every record of the store, are not negative.\<close>

definition nonneg_metric :: "metric \<Rightarrow> bool" where
  "nonneg_metric m =
     (0 \<le> daily m \<and> 0 \<le> weekly m \<and> 0 \<le> monthly m \<and> 0 \<le> yearly m \<and> 0 \<le> total m)"

definition nonneg_counters :: "db \<Rightarrow> bool" where
  "nonneg_counters s = (\<forall>(p, m) \<in> set (metrics s). nonneg_metric m)"

fun nonneg_count :: "metrics_op \<Rightarrow> bool" where
  "nonneg_count (Record path count override) = (0 \<le> count)"
| "nonneg_count (Refresh now) = True"

section \<open>File cache\<close>

text \<open>
  The disk as \<open>open(filepath, 'rb')\<close> sees it: a path names a regular file with
  its content, a directory, or nothing. The world of the cache holds the class
  attribute \<open>_cache\<close> (key to time of insertion and content), the disk, and the log
  of the paths handed to \<open>open\<close>, one entry per access to the disk.
\<close>

datatype fs_entry =
    File bytes
  | Directory

record world =
  cache :: "(string \<times> real \<times> bytes) list"
  fs :: "(string \<times> fs_entry) list"
  disk_reads :: "string list"

text \<open>
  \<open>with open(filepath, 'rb') as f: f.read()\<close>: a missing path raises
  \<open>FileNotFoundError\<close>, a directory raises \<open>IsADirectoryError\<close>.
\<close>

definition open_read :: "string \<Rightarrow> world \<Rightarrow> (error + bytes) \<times> world" where
  "open_read filepath w =
     (let w' = w\<lparr>disk_reads := disk_reads w @ [filepath]\<rparr>
      in case map_of (fs w) filepath of
           None \<Rightarrow> (Inl FileNotFoundError, w')
         | Some Directory \<Rightarrow> (Inl IsADirectoryError, w')
         | Some (File content) \<Rightarrow> (Inr content, w'))"

text \<open>The key of a file in the cache: \<open>f'f-{dirname}/{filename}'\<close>.\<close>

definition cache_key :: "string \<Rightarrow> string \<Rightarrow> string" where
  "cache_key dirname filename = ''f-'' @ dirname @ ''/'' @ filename"

text \<open>
  \<open>get_cached_file\<close>. The first argument stands for
  \<open>safe_join(u.get_path(dirname), filename)\<close>, of werkzeug and \<open>utils.py\<close>:
  the joined path, or \<open>None\<close> for an unsafe one. The clause
  \<open>except FileNotFoundError or IsADirectoryError\<close> names the value of
  \<open>FileNotFoundError or IsADirectoryError\<close>, which is the class
  \<open>FileNotFoundError\<close>: only that exception is turned into \<open>None\<close>.
\<close>

definition get_cached_file ::
  "(string \<Rightarrow> string \<Rightarrow> string option) \<Rightarrow> config \<Rightarrow> string \<Rightarrow> string \<Rightarrow> real \<Rightarrow> world
     \<Rightarrow> (error + bytes option) \<times> world" where
  "get_cached_file safe_join c dirname filename now w =
     (case safe_join dirname filename of
        None \<Rightarrow> (Inr None, w)
      | Some filepath \<Rightarrow>
          if filepath = [] then (Inr None, w)
          else
            (case
               (if debug c then
                  (case open_read filepath w of
                     (Inl e, w') \<Rightarrow> (Inl e, w')
                   | (Inr content, w') \<Rightarrow> (Inr (Some content), w'))
                else
                  (let key = cache_key dirname filename;
                       cached = map_of (cache w) key
                   in case cached of
                        None \<Rightarrow>
                          (case open_read filepath w of
                             (Inl e, w') \<Rightarrow> (Inl e, w')
                           | (Inr ret, w') \<Rightarrow>
                               (Inr (Some ret),
                                w'\<lparr>cache := dict_set (cache w') key (now, ret)\<rparr>))
                      | Some (inserted_at, content) \<Rightarrow>
                          if now - inserted_at < cache_age c then (Inr (Some content), w)
                          else
                            (case open_read filepath w of
                               (Inl e, w') \<Rightarrow> (Inl e, w')
                             | (Inr ret, w') \<Rightarrow>
                                 (Inr (Some ret),
                                  w'\<lparr>cache := dict_set (cache w') key (now, ret)\<rparr>))))
             of
               (Inl FileNotFoundError, w') \<Rightarrow> (Inr None, w')
             | r \<Rightarrow> r))"

text \<open>
  \<open>get_cached_text\<close>. The first argument stands for the UTF-8 codec behind
  \<open>str(raw.getvalue(), encoding='utf-8')\<close>: the text, or \<open>None\<close> where the codec
  raises \<open>UnicodeDecodeError\<close>. A \<open>BytesIO\<close> is always true, so \<open>if raw\<close>
  tests for \<open>None\<close>.
\<close>

definition get_cached_text ::
  "(bytes \<Rightarrow> string option) \<Rightarrow> (string \<Rightarrow> string \<Rightarrow> string option) \<Rightarrow> config
     \<Rightarrow> string \<Rightarrow> string \<Rightarrow> real \<Rightarrow> world \<Rightarrow> (error + string option) \<times> world" where
  "get_cached_text decode_utf8 safe_join c dirname filename now w =
     (case get_cached_file safe_join c dirname filename now w of
        (Inl e, w') \<Rightarrow> (Inl e, w')
      | (Inr None, w') \<Rightarrow> (Inr None, w')
      | (Inr (Some raw), w') \<Rightarrow> (Inr (decode_utf8 raw), w'))"

section \<open>Example values\<close>

text \<open>A configuration and stores on which the theorems below are instantiated.\<close>

definition example_config :: config where
  "example_config =
     \<lparr>status_list =
        [\<lparr>item_id = 0, item_name = ''Awake'', item_desc = ''online'', item_color = ''awake''\<rparr>,
         \<lparr>item_id = 1, item_name = ''Asleep'', item_desc = ''offline'',
          item_color = ''sleeping''\<rparr>],
      using_first = True, sorted_flag = True, not_using = Some ''idle'',
      metrics_enabled = True, allow_list = [''/''], cache_age = 1200, debug = False\<rparr>"

definition example_device :: device where
  "example_device =
     \<lparr>dev_show_name = ''Laptop'', dev_using = Some True, dev_status = Some ''editor'',
      dev_fields = [(''battery'', JObj [(''level'', JInt 80)])]\<rparr>"

definition example_db :: db where
  "example_db =
     \<lparr>main = \<lparr>main_status = 0, main_private_mode = False, main_last_updated = 100\<rparr>,
      devices = [(''pc'', example_device)],
      meta = Some \<lparr>meta_today = ''2024-3-14'', meta_week = ''2024-11'',
                   meta_month = ''2024-3'', meta_year = ''2024''\<rparr>,
      metrics = [(''/'', \<lparr>daily = 3, weekly = 3, monthly = 3, yearly = 3, total = 3\<rparr>)]\<rparr>"

definition example_private_db :: db where
  "example_private_db = example_db\<lparr>main := (main example_db)\<lparr>main_private_mode := True\<rparr>\<rparr>"

definition example_now :: datetime where
  "example_now = \<lparr>dt_year = 2024, dt_month = 3, dt_day = 15, dt_iso_week = 11\<rparr>"

text \<open>A helper that takes \<open>None\<close> for the empty mapping, and one that raises on it.\<close>

definition example_merge_none :: "pydict \<Rightarrow> error + pydict" where
  "example_merge_none new = Inr (deep_merge_dict [] new)"

definition example_merge_raises :: "pydict \<Rightarrow> error + pydict" where
  "example_merge_raises new = Inl AttributeError"


text \<open>A join that refuses an empty or absolute file name, and a disk with a file and a directory.\<close>

definition example_join :: "string \<Rightarrow> string \<Rightarrow> string option" where
  "example_join dirname filename =
     (if filename = [] \<or> hd filename = CHR ''/'' then None
      else Some (''/srv/'' @ dirname @ ''/'' @ filename))"

definition example_world :: world where
  "example_world =
     \<lparr>cache = [],
      fs = [(''/srv/static/a.css'', File [1, 2, 3]), (''/srv/static/img'', Directory)],
      disk_reads = []\<rparr>"

section \<open>Properties\<close>

subsection \<open>Auxiliary facts\<close>

lemma map_of_dict_set: "map_of (dict_set d k v) = (map_of d)(k \<mapsto> v)"
  by (simp add: dict_set_def update_conv')

lemma metrics_refresh_eq:
  assumes "meta s = Some m"
  shows "metrics_refresh now s =
     (Inr (),
      s\<lparr>meta := Some \<lparr>meta_today = key_today now, meta_week = key_week now,
                       meta_month = key_month now, meta_year = key_year now\<rparr>,
        metrics := map (\<lambda>(p, i). (p,
           i\<lparr>daily := (if key_today now \<noteq> meta_today m then 0 else daily i),
             weekly := (if key_week now \<noteq> meta_week m then 0 else weekly i),
             monthly := (if key_month now \<noteq> meta_month m then 0 else monthly i),
             yearly := (if key_year now \<noteq> meta_year m then 0 else yearly i)\<rparr>)) (metrics s)\<rparr>)"
  using assms
  by (cases m)
    (simp add: metrics_refresh_def reset_daily_def reset_weekly_def reset_monthly_def
      reset_yearly_def Let_def split_def comp_def)

lemma example_keys:
  "key_today example_now = ''2024-3-15''" "key_week example_now = ''2024-11''"
  "key_month example_now = ''2024-3''" "key_year example_now = ''2024''"
  by (simp_all add: key_today_def key_week_def key_month_def key_year_def example_now_def
      str_nat.simps)

subsection \<open>Device list under private mode\<close>

text \<open>
  C1. Whatever the device table holds, \<open>device_list\<close> is the empty mapping while
  \<open>private_mode\<close> is set: under private mode two stores with any device tables, and
  any two configurations, give the same empty output.
\<close>

theorem C1_private_mode_hides_devices:
  assumes "private_mode s" and "private_mode s'"
  shows "device_list c s = [] \<and> device_list c s = device_list c' s'"
  using assms by (simp add: device_list_def)

theorem C1_private_mode_hides_devices_witness:
  "private_mode example_private_db \<and>
   private_mode (example_private_db\<lparr>devices := []\<rparr>) \<and>
   devices example_private_db = [(''pc'', example_device)] \<and>
   device_list example_config example_private_db = [] \<and>
   device_list example_config example_private_db =
     device_list example_config (example_private_db\<lparr>devices := []\<rparr>)"
proof -
  have p: "private_mode example_private_db"
    by (simp add: private_mode_def example_private_db_def)
  have q: "private_mode (example_private_db\<lparr>devices := []\<rparr>)"
    by (simp add: private_mode_def example_private_db_def)
  have d: "devices example_private_db = [(''pc'', example_device)]"
    by (simp add: example_private_db_def example_db_def)
  note r = C1_private_mode_hides_devices [OF p q, of example_config example_config]
  from p q d r show ?thesis
    by blast
qed

subsection \<open>Rollover of the metrics\<close>

text \<open>
  C3. With the row of \<open>metrics_meta\<close> in place, \<open>_metrics_refresh\<close> zeroes exactly
  the counters whose period key differs from the stored marker, each of the four
  periods on its own, leaves \<open>total\<close> alone and stores the four current keys. A second
  call at a time with the same four keys resets nothing: it returns the store exactly as
  the first call left it.
\<close>

theorem C3_refresh_idempotent:
  assumes "meta s = Some m"
    and "key_today now' = key_today now" and "key_week now' = key_week now"
    and "key_month now' = key_month now" and "key_year now' = key_year now"
  shows "metrics_refresh now s =
     (Inr (),
      s\<lparr>meta := Some \<lparr>meta_today = key_today now, meta_week = key_week now,
                       meta_month = key_month now, meta_year = key_year now\<rparr>,
        metrics := map (\<lambda>(p, i). (p,
           i\<lparr>daily := (if key_today now \<noteq> meta_today m then 0 else daily i),
             weekly := (if key_week now \<noteq> meta_week m then 0 else weekly i),
             monthly := (if key_month now \<noteq> meta_month m then 0 else monthly i),
             yearly := (if key_year now \<noteq> meta_year m then 0 else yearly i)\<rparr>)) (metrics s)\<rparr>)
     \<and> metrics_refresh now' (snd (metrics_refresh now s)) =
         (Inr (), snd (metrics_refresh now s))"
proof -
  let ?s1 = "snd (metrics_refresh now s)"
  have m1: "meta ?s1 = Some \<lparr>meta_today = key_today now, meta_week = key_week now,
                       meta_month = key_month now, meta_year = key_year now\<rparr>"
    by (simp add: metrics_refresh_eq [OF assms(1)])
  have "metrics_refresh now' ?s1 = (Inr (), ?s1)"
    by (simp add: metrics_refresh_eq [OF m1] assms(2-) split_def)
      (simp add: metrics_refresh_eq [OF assms(1)])
  with metrics_refresh_eq [OF assms(1)] show ?thesis
    by simp
qed

theorem C3_refresh_idempotent_witness:
  "meta example_db = Some \<lparr>meta_today = ''2024-3-14'', meta_week = ''2024-11'',
                            meta_month = ''2024-3'', meta_year = ''2024''\<rparr> \<and>
   metrics (snd (metrics_refresh example_now example_db)) =
     [(''/'', \<lparr>daily = 0, weekly = 3, monthly = 3, yearly = 3, total = 3\<rparr>)] \<and>
   meta (snd (metrics_refresh example_now example_db)) =
     Some \<lparr>meta_today = ''2024-3-15'', meta_week = ''2024-11'',
           meta_month = ''2024-3'', meta_year = ''2024''\<rparr> \<and>
   metrics_refresh (example_now\<lparr>dt_day := 15\<rparr>) (snd (metrics_refresh example_now example_db)) =
     (Inr (), snd (metrics_refresh example_now example_db))"
proof -
  have m: "meta example_db = Some \<lparr>meta_today = ''2024-3-14'', meta_week = ''2024-11'',
                            meta_month = ''2024-3'', meta_year = ''2024''\<rparr>"
    by (simp add: example_db_def)
  have same: "example_now\<lparr>dt_day := 15\<rparr> = example_now"
    by (simp add: example_now_def)
  have k: "key_today (example_now\<lparr>dt_day := 15\<rparr>) = key_today example_now"
    "key_week (example_now\<lparr>dt_day := 15\<rparr>) = key_week example_now"
    "key_month (example_now\<lparr>dt_day := 15\<rparr>) = key_month example_now"
    "key_year (example_now\<lparr>dt_day := 15\<rparr>) = key_year example_now"
    by (simp_all add: same)
  note r = C3_refresh_idempotent [OF m k]
  have r1: "metrics (snd (metrics_refresh example_now example_db)) =
     [(''/'', \<lparr>daily = 0, weekly = 3, monthly = 3, yearly = 3, total = 3\<rparr>)]"
    using r [THEN conjunct1] by (simp add: example_keys) (simp add: example_db_def)
  have r2: "meta (snd (metrics_refresh example_now example_db)) =
     Some \<lparr>meta_today = ''2024-3-15'', meta_week = ''2024-11'',
           meta_month = ''2024-3'', meta_year = ''2024''\<rparr>"
    using r [THEN conjunct1] by (simp add: example_keys)
  from m r1 r2 r [THEN conjunct2] show ?thesis
    by blast
qed

subsection \<open>Recording a metric\<close>

text \<open>
  C4, in the form that holds of the code. \<open>record_metrics\<close> returns the store
  untouched for a path outside the allow-list. For a path of the allow-list it takes the
  record of the path (a new one with five zero counters when there is none) and adds
  \<open>count\<close> to its five counters, or with \<open>override\<close> sets the five counters to
  \<open>count\<close>: when the five new counters fit the signed 64-bit range of their columns
  the record is stored and nothing else changes, and when one does not fit
  \<open>OverflowError\<close> is raised and the store is as it was. On a path without a record,
  recording 5 and then 3 gives 8 in every bucket, and recording 3 with \<open>override\<close>
  after that gives 3 in every bucket.
\<close>

theorem C4_record_metrics:
  "(path \<notin> set (allow_list c) \<longrightarrow> record_metrics c path count override s = (Inr (), s)) \<and>
   (path \<in> set (allow_list c) \<longrightarrow>
      (let old = (case map_of (metrics s) path of None \<Rightarrow> zero_metric | Some m \<Rightarrow> m);
           new = (if override
                  then \<lparr>daily = count, weekly = count, monthly = count, yearly = count,
                        total = count\<rparr>
                  else \<lparr>daily = daily old + count, weekly = weekly old + count,
                        monthly = monthly old + count, yearly = yearly old + count,
                        total = total old + count\<rparr>);
           r = record_metrics c path count override s
       in (metric_fits new \<longrightarrow>
             fst r = Inr () \<and> map_of (metrics (snd r)) path = Some new \<and>
             (\<forall>p. p \<noteq> path \<longrightarrow> map_of (metrics (snd r)) p = map_of (metrics s) p) \<and>
             main (snd r) = main s \<and> devices (snd r) = devices s \<and> meta (snd r) = meta s) \<and>
          (\<not> metric_fits new \<longrightarrow> r = (Inl OverflowError, s)))) \<and>
   (path \<in> set (allow_list c) \<and> map_of (metrics s) path = None \<longrightarrow>
      map_of (metrics (snd (record_metrics c path 3 False
           (snd (record_metrics c path 5 False s))))) path =
        Some \<lparr>daily = 8, weekly = 8, monthly = 8, yearly = 8, total = 8\<rparr> \<and>
      map_of (metrics (snd (record_metrics c path 3 True
           (snd (record_metrics c path 3 False (snd (record_metrics c path 5 False s))))))) path =
        Some \<lparr>daily = 3, weekly = 3, monthly = 3, yearly = 3, total = 3\<rparr>)"
  by (simp add: record_metrics_def Let_def map_of_dict_set zero_metric_def metric_fits_def
      int64_range_def)

theorem C4_record_metrics_witness:
  "''/'' \<in> set (allow_list example_config) \<and> ''/admin'' \<notin> set (allow_list example_config) \<and>
   map_of (metrics (fresh example_config 0)) ''/'' = None \<and>
   metric_fits \<lparr>daily = 5, weekly = 5, monthly = 5, yearly = 5, total = 5\<rparr> \<and>
   record_metrics example_config ''/admin'' 5 False (fresh example_config 0) =
     (Inr (), fresh example_config 0) \<and>
   fst (record_metrics example_config ''/'' 5 False (fresh example_config 0)) = Inr () \<and>
   map_of (metrics (snd (record_metrics example_config ''/'' 5 False (fresh example_config 0))))
       ''/'' =
     Some \<lparr>daily = 5, weekly = 5, monthly = 5, yearly = 5, total = 5\<rparr> \<and>
   map_of (metrics (snd (record_metrics example_config ''/'' 3 False
        (snd (record_metrics example_config ''/'' 5 False (fresh example_config 0)))))) ''/'' =
     Some \<lparr>daily = 8, weekly = 8, monthly = 8, yearly = 8, total = 8\<rparr> \<and>
   map_of (metrics (snd (record_metrics example_config ''/'' 3 True
        (snd (record_metrics example_config ''/'' 3 False
           (snd (record_metrics example_config ''/'' 5 False (fresh example_config 0)))))))) ''/'' =
     Some \<lparr>daily = 3, weekly = 3, monthly = 3, yearly = 3, total = 3\<rparr>"
  using C4_record_metrics [of "''/''" example_config 5 False "fresh example_config 0"]
    C4_record_metrics [of "''/admin''" example_config 5 False "fresh example_config 0"]
  by (simp add: example_config_def fresh_def zero_metric_def Let_def metric_fits_def
      int64_range_def)

text \<open>
  A count that does not fit the column: recording \<open>2 ^ 63\<close> on a path of the
  allow-list raises \<open>OverflowError\<close>, and no counter of the path is added to or set.
\<close>

theorem C4_overflow_counterexample:
  "''/'' \<in> set (allow_list example_config) \<and>
   record_metrics example_config ''/'' (2 ^ 63) False (fresh example_config 0) =
     (Inl OverflowError, fresh example_config 0) \<and>
   record_metrics example_config ''/'' (2 ^ 63) True (fresh example_config 0) =
     (Inl OverflowError, fresh example_config 0) \<and>
   map_of (metrics (snd (record_metrics example_config ''/'' (2 ^ 63) False
        (fresh example_config 0)))) ''/'' = None"
  by (simp add: record_metrics_def example_config_def fresh_def zero_metric_def Let_def
      metric_fits_def int64_range_def)

subsection \<open>Sign of the counters\<close>

lemma set_dict_set: "set (dict_set d k v) \<subseteq> insert (k, v) (set d)"
  unfolding dict_set_def by (induction d) auto

lemma all_dict_set:
  assumes "\<forall>(k, v) \<in> set d. P v" and "P v'"
  shows "\<forall>(k, v) \<in> set (dict_set d k' v'). P v"
  using assms set_dict_set [of d k' v'] by auto

lemma nonneg_record_metrics:
  assumes "nonneg_counters s" and "0 \<le> count"
  shows "nonneg_counters (snd (record_metrics c path count override s))"
proof (cases "path \<in> set (allow_list c)")
  case False
  with assms show ?thesis by (simp add: record_metrics_def)
next
  case True
  define old where "old = (case map_of (metrics s) path of None \<Rightarrow> zero_metric | Some m \<Rightarrow> m)"
  have old: "nonneg_metric old"
  proof (cases "map_of (metrics s) path")
    case None
    then show ?thesis by (simp add: old_def zero_metric_def nonneg_metric_def)
  next
    case (Some m)
    then have "(path, m) \<in> set (metrics s)" by (rule map_of_SomeD)
    with assms(1) Some show ?thesis by (auto simp: old_def nonneg_counters_def)
  qed
  define new where "new =
     (if override
      then \<lparr>daily = count, weekly = count, monthly = count, yearly = count, total = count\<rparr>
      else \<lparr>daily = daily old + count, weekly = weekly old + count,
            monthly = monthly old + count, yearly = yearly old + count,
            total = total old + count\<rparr>)"
  have new: "nonneg_metric new"
    using old assms(2) by (simp add: new_def nonneg_metric_def)
  have r: "snd (record_metrics c path count override s) =
     (if metric_fits new then s\<lparr>metrics := dict_set (metrics s) path new\<rparr> else s)"
    using True by (simp add: record_metrics_def Let_def old_def new_def)
  have "\<forall>(k, v) \<in> set (dict_set (metrics s) path new). nonneg_metric v"
    using assms(1) new unfolding nonneg_counters_def by (rule all_dict_set)
  with assms(1) r show ?thesis by (simp add: nonneg_counters_def)
qed

lemma nonneg_metrics_refresh:
  assumes "nonneg_counters s"
  shows "nonneg_counters (snd (metrics_refresh now s))"
proof (cases "meta s")
  case None
  with assms show ?thesis by (simp add: metrics_refresh_def)
next
  case (Some m)
  with assms show ?thesis
    by (auto simp: metrics_refresh_eq [OF Some] nonneg_counters_def nonneg_metric_def)
qed

lemma nonneg_foldl_run_op:
  "nonneg_counters s \<Longrightarrow> \<forall>op \<in> set ops. nonneg_count op
     \<Longrightarrow> nonneg_counters (foldl (run_op c) s ops)"
proof (induction ops arbitrary: s)
  case Nil
  then show ?case by simp
next
  case (Cons op ops)
  have "nonneg_counters (run_op c s op)"
    using Cons.prems by (cases op) (simp_all add: nonneg_record_metrics nonneg_metrics_refresh)
  with Cons show ?case by simp
qed

text \<open>
  C10, in the form that holds of the code. From the store that \<open>__init__\<close> leaves
  on an empty database, after
  any sequence of \<open>record_metrics\<close> and \<open>_metrics_refresh\<close> calls in which every
  \<open>count\<close> passed to \<open>record_metrics\<close> is at least zero, all five counters of
  every record are at least zero.
\<close>

theorem C10_nonneg_counters:
  assumes "\<forall>op \<in> set ops. nonneg_count op"
  shows "nonneg_counters (run_ops c ops (fresh c t))"
proof -
  have "nonneg_counters (fresh c t)"
    by (simp add: nonneg_counters_def fresh_def)
  with assms show ?thesis
    unfolding run_ops_def by (rule nonneg_foldl_run_op [rotated])
qed

lemma example_keys_next_day:
  "key_today (example_now\<lparr>dt_day := 16\<rparr>) = ''2024-3-16''"
  "key_week (example_now\<lparr>dt_day := 16\<rparr>) = ''2024-11''"
  "key_month (example_now\<lparr>dt_day := 16\<rparr>) = ''2024-3''"
  "key_year (example_now\<lparr>dt_day := 16\<rparr>) = ''2024''"
  by (simp_all add: key_today_def key_week_def key_month_def key_year_def example_now_def
      str_nat.simps)

lemma example_run:
  "metric_data_index
      (run_ops example_config
         [Refresh example_now, Record ''/'' 1 False, Record ''/'' 1 False, Record ''/'' 1 False]
         (fresh example_config 0)) = (3, 3, 3, 3, 3)"
  "metric_data_index
      (run_ops example_config
         [Refresh example_now, Record ''/'' 1 False, Record ''/'' 1 False, Record ''/'' 1 False,
          Refresh (example_now\<lparr>dt_day := 16\<rparr>)]
         (fresh example_config 0)) = (0, 3, 3, 3, 3)"
  by (simp_all add: run_ops_def metric_data_index_def record_metrics_def metrics_refresh_def
      fresh_def example_config_def example_keys example_keys_next_day zero_metric_def
      dict_set_def reset_daily_def reset_weekly_def reset_monthly_def reset_yearly_def Let_def
      metric_fits_def int64_range_def)

theorem C10_nonneg_counters_witness:
  "list_all nonneg_count
     [Refresh example_now, Record ''/'' 1 False, Record ''/'' 1 False, Record ''/'' 1 False,
      Refresh (example_now\<lparr>dt_day := 16\<rparr>)] \<and>
   nonneg_counters
     (run_ops example_config
        [Refresh example_now, Record ''/'' 1 False, Record ''/'' 1 False, Record ''/'' 1 False,
         Refresh (example_now\<lparr>dt_day := 16\<rparr>)]
        (fresh example_config 0)) \<and>
   metric_data_index
     (run_ops example_config
        [Refresh example_now, Record ''/'' 1 False, Record ''/'' 1 False, Record ''/'' 1 False,
         Refresh (example_now\<lparr>dt_day := 16\<rparr>)]
        (fresh example_config 0)) = (0, 3, 3, 3, 3)"
proof -
  have h: "\<forall>op \<in> set [Refresh example_now, Record ''/'' 1 False, Record ''/'' 1 False,
                 Record ''/'' 1 False, Refresh (example_now\<lparr>dt_day := 16\<rparr>)]. nonneg_count op"
    by simp
  then have l: "list_all nonneg_count
     [Refresh example_now, Record ''/'' 1 False, Record ''/'' 1 False, Record ''/'' 1 False,
      Refresh (example_now\<lparr>dt_day := 16\<rparr>)]"
    by simp
  from l C10_nonneg_counters [OF h, of example_config 0] example_run(2) show ?thesis
    by blast
qed

text \<open>
  \<open>record_metrics\<close> does not look at the sign of \<open>count\<close>: recording \<open>-1\<close> on
  the fresh store leaves \<open>-1\<close> in all five counters of the path.
\<close>

theorem C10_negative_count_counterexample:
  "map_of (metrics (run_ops example_config [Record ''/'' (- 1) False] (fresh example_config 0)))
      ''/'' =
     Some \<lparr>daily = - 1, weekly = - 1, monthly = - 1, yearly = - 1, total = - 1\<rparr> \<and>
   \<not> nonneg_counters (run_ops example_config [Record ''/'' (- 1) False] (fresh example_config 0))"
  by (simp add: nonneg_counters_def nonneg_metric_def run_ops_def record_metrics_def
      example_config_def fresh_def dict_set_def zero_metric_def metric_fits_def int64_range_def)

subsection \<open>Resolving a status id\<close>

text \<open>
  C6, in the form that holds of the code. For an id at or beyond the length of the
  catalog, or below minus the length, \<open>get_status\<close> does not raise: it returns the fallback item named
  \<open>Unknown\<close> with color \<open>error\<close>. For an id from zero up to the length less one it
  returns the entry of the catalog at that position.
\<close>

theorem C6_get_status_fallback:
  "(int (length (status_list c)) \<le> sid \<or> sid < - int (length (status_list c)) \<longrightarrow>
      get_status c s sid =
        (False, \<lparr>item_id = status_id s, item_name = ''Unknown'',
                 item_desc = unknown_desc, item_color = ''error''\<rparr>)) \<and>
   (0 \<le> sid \<and> sid < int (length (status_list c)) \<longrightarrow>
      get_status c s sid = (True, status_list c ! nat sid))"
  by (auto simp: get_status_def py_index_def Let_def)

theorem C6_get_status_fallback_witness:
  "int (length (status_list example_config)) \<le> 2 \<and>
   - 3 < - int (length (status_list example_config)) \<and>
   (0::int) \<le> 1 \<and> 1 < int (length (status_list example_config)) \<and>
   get_status example_config example_db 2 =
     (False, \<lparr>item_id = 0, item_name = ''Unknown'', item_desc = unknown_desc,
              item_color = ''error''\<rparr>) \<and>
   get_status example_config example_db (- 3) =
     (False, \<lparr>item_id = 0, item_name = ''Unknown'', item_desc = unknown_desc,
              item_color = ''error''\<rparr>) \<and>
   get_status example_config example_db 1 =
     (True, \<lparr>item_id = 1, item_name = ''Asleep'', item_desc = ''offline'',
             item_color = ''sleeping''\<rparr>)"
  using C6_get_status_fallback [of example_config 2 example_db]
    C6_get_status_fallback [of example_config "- 3" example_db]
    C6_get_status_fallback [of example_config 1 example_db]
  by (simp add: example_config_def example_db_def status_id_def)

text \<open>
  A negative id down to minus the length is a valid Python index: \<open>-1\<close> is not a
  position of the catalog, and yet \<open>get_status\<close> answers with the last entry and
  \<open>True\<close> instead of the fallback item.
\<close>

theorem C6_negative_index_counterexample:
  "\<not> (0 \<le> (- 1 :: int) \<and> - 1 < int (length (status_list example_config))) \<and>
   get_status example_config example_db (- 1) =
     (True, \<lparr>item_id = 1, item_name = ''Asleep'', item_desc = ''offline'',
             item_color = ''sleeping''\<rparr>) \<and>
   item_name (snd (get_status example_config example_db (- 1))) \<noteq> ''Unknown''"
  by (simp add: get_status_def py_index_def example_config_def)

lemma get_status_negative_index:
  "- int (length (status_list c)) \<le> sid \<Longrightarrow> sid < 0 \<Longrightarrow>
     get_status c s sid = (True, status_list c ! nat (int (length (status_list c)) + sid))"
  by (simp add: get_status_def py_index_def Let_def)

subsection \<open>Validation in \<open>device_set\<close>\<close>

text \<open>
  C8. \<open>device_set\<close> with an id that is \<open>None\<close> or empty raises
  \<open>APIUnsuccessful\<close> with code 400, and so does \<open>device_set\<close> with an id that names
  no device and a \<open>show_name\<close> that is \<open>None\<close> or empty; in both cases the store is
  returned as it was, so no device is made or changed.
\<close>

theorem C8_device_set_validation:
  "(\<not> truthy id' \<longrightarrow>
      device_set merge_none id' show_name using' status' fields' now s =
        (Inl (APIUnsuccessful 400 ''device id cannot be empty!''), s)) \<and>
   (id' = Some i \<and> i \<noteq> [] \<and> device_get s i = None \<and> \<not> truthy show_name \<longrightarrow>
      device_set merge_none id' show_name using' status' fields' now s =
        (Inl (APIUnsuccessful 400 ''device show_name cannot be empty!''), s))"
  by (auto simp: device_set_def truthy_def split: option.splits)

theorem C8_device_set_validation_witness:
  "\<not> truthy (Some '''') \<and> \<not> truthy None \<and> device_get example_db ''tv'' = None \<and>
   device_set example_merge_none (Some '''') (Some ''TV'') (Some True) None [] 200 example_db =
     (Inl (APIUnsuccessful 400 ''device id cannot be empty!''), example_db) \<and>
   device_set example_merge_none None (Some ''TV'') (Some True) None [] 200 example_db =
     (Inl (APIUnsuccessful 400 ''device id cannot be empty!''), example_db) \<and>
   device_set example_merge_none (Some ''tv'') None (Some True) (Some ''on'')
       [(''room'', JStr ''den'')] 200 example_db =
     (Inl (APIUnsuccessful 400 ''device show_name cannot be empty!''), example_db) \<and>
   device_set example_merge_raises (Some ''tv'') (Some '''') (Some True) (Some ''on'') [] 200
       example_db =
     (Inl (APIUnsuccessful 400 ''device show_name cannot be empty!''), example_db)"
proof -
  have a: "\<not> truthy (Some '''')" "\<not> truthy None"
    by (simp_all add: truthy_def)
  have b: "device_get example_db ''tv'' = None"
    by (simp add: device_get_def example_db_def)
  from a b
    C8_device_set_validation [of "Some ''''" example_merge_none "Some ''TV''" "Some True" None
      "[]" 200 example_db]
    C8_device_set_validation [of None example_merge_none "Some ''TV''" "Some True" None "[]" 200
      example_db]
    C8_device_set_validation [of "Some ''tv''" example_merge_none None "Some True" "Some ''on''"
      "[(''room'', JStr ''den'')]" 200 example_db "''tv''"]
    C8_device_set_validation [of "Some ''tv''" example_merge_raises "Some ''''" "Some True"
      "Some ''on''" "[]" 200 example_db "''tv''"]
  show ?thesis
    by simp
qed

subsection \<open>Attributes of an existing device\<close>

text \<open>
  C9, in the form that holds of the code. On a device that exists, \<open>device_set\<close>
  succeeds; a \<open>show_name\<close>
  or \<open>status\<close> that is a non-empty string and a \<open>using\<close> that is not \<open>None\<close>
  replace the stored value, while an argument that is \<open>None\<close>, and likewise a
  \<open>show_name\<close> or \<open>status\<close> that is the empty string, leaves the stored value as
  it was; afterwards \<open>last_updated\<close> of the main row is the current time.
\<close>

theorem C9_device_set_overwrites:
  assumes "device_get s i = Some d" and "i \<noteq> []"
  shows "\<exists>s' d'.
     device_set merge_none (Some i) show_name using' status' fields' now s = (Inr (), s') \<and>
     device_get s' i = Some d' \<and>
     dev_show_name d' = (case show_name of None \<Rightarrow> dev_show_name d
                         | Some n \<Rightarrow> if n = [] then dev_show_name d else n) \<and>
     dev_using d' = (case using' of None \<Rightarrow> dev_using d | Some b \<Rightarrow> Some b) \<and>
     dev_status d' = (case status' of None \<Rightarrow> dev_status d
                      | Some t \<Rightarrow> if t = [] then dev_status d else Some t) \<and>
     last_updated s' = now"
  using assms
  by (auto simp: device_set_def device_get_def Let_def map_of_dict_set truthy_def
      set_last_updated_def last_updated_def call_deep_merge_dict_def split: option.splits)

theorem C9_device_set_overwrites_witness:
  "device_get example_db ''pc'' = Some example_device \<and> ''pc'' \<noteq> [] \<and>
   (\<exists>s' d'. device_set example_merge_raises (Some ''pc'') (Some ''Desk'') (Some False) None []
          200 example_db = (Inr (), s') \<and>
      device_get s' ''pc'' = Some d' \<and> dev_show_name d' = ''Desk'' \<and>
      dev_using d' = Some False \<and> dev_status d' = Some ''editor'' \<and> last_updated s' = 200)"
proof -
  have a: "device_get example_db ''pc'' = Some example_device"
    by (simp add: device_get_def example_db_def)
  have b: "''pc'' \<noteq> []"
    by simp
  from a b C9_device_set_overwrites [OF a b, of example_merge_raises "Some ''Desk''"
      "Some False" None "[]" 200]
  show ?thesis
    by (simp add: example_device_def)
qed

text \<open>
  An empty string is a value that was given and is not \<open>None\<close>, and yet
  \<open>status or device.status\<close> keeps the stored text: the status of the device is still
  \<open>editor\<close> after \<open>device_set\<close> with \<open>status=''\<close>.
\<close>

theorem C9_empty_status_counterexample:
  "device_get example_db ''pc'' = Some example_device \<and>
   dev_status example_device = Some ''editor'' \<and>
   fst (device_set example_merge_none (Some ''pc'') None None (Some '''') [] 200 example_db) =
     Inr () \<and>
   map_option dev_status
       (device_get
          (snd (device_set example_merge_none (Some ''pc'') None None (Some '''') [] 200
                  example_db)) ''pc'')
     = Some (Some ''editor'')"
  by (simp add: device_set_def device_get_def Let_def map_of_dict_set truthy_def
      set_last_updated_def example_db_def example_device_def call_deep_merge_dict_def)

subsection \<open>The file cache\<close>

lemma get_cached_file_hit:
  assumes "\<not> debug c" and "safe_join dirname filename = Some filepath" and "filepath \<noteq> []"
    and "map_of (cache w) (cache_key dirname filename) = Some (inserted_at, content)"
    and "now - inserted_at < cache_age c"
  shows "get_cached_file safe_join c dirname filename now w = (Inr (Some content), w)"
  using assms by (simp add: get_cached_file_def)

lemma get_cached_file_miss:
  assumes "\<not> debug c" and "safe_join dirname filename = Some filepath" and "filepath \<noteq> []"
    and "\<forall>t0 old. map_of (cache w) (cache_key dirname filename) = Some (t0, old) \<longrightarrow>
           \<not> now - t0 < cache_age c"
    and "map_of (fs w) filepath = Some (File ret)"
  shows "get_cached_file safe_join c dirname filename now w =
     (Inr (Some ret),
      w\<lparr>disk_reads := disk_reads w @ [filepath],
        cache := dict_set (cache w) (cache_key dirname filename) (now, ret)\<rparr>)"
  using assms by (auto simp: get_cached_file_def open_read_def Let_def split: option.splits)

text \<open>A path that names nothing: the read is tried, and the result is \<open>None\<close>.\<close>

lemma get_cached_file_missing:
  assumes "safe_join dirname filename = Some filepath" and "filepath \<noteq> []"
    and "debug c \<or>
      (\<forall>t0 old. map_of (cache w) (cache_key dirname filename) = Some (t0, old) \<longrightarrow>
         \<not> now - t0 < cache_age c)"
    and "map_of (fs w) filepath = None"
  shows "get_cached_file safe_join c dirname filename now w =
     (Inr None, w\<lparr>disk_reads := disk_reads w @ [filepath]\<rparr>)"
  using assms by (auto simp: get_cached_file_def open_read_def Let_def split: option.splits)

text \<open>A path that names a directory: \<open>IsADirectoryError\<close> leaves \<open>get_cached_file\<close>.\<close>

lemma get_cached_file_directory:
  assumes "safe_join dirname filename = Some filepath" and "filepath \<noteq> []"
    and "debug c \<or>
      (\<forall>t0 old. map_of (cache w) (cache_key dirname filename) = Some (t0, old) \<longrightarrow>
         \<not> now - t0 < cache_age c)"
    and "map_of (fs w) filepath = Some Directory"
  shows "get_cached_file safe_join c dirname filename now w =
     (Inl IsADirectoryError, w\<lparr>disk_reads := disk_reads w @ [filepath]\<rparr>)"
  using assms by (auto simp: get_cached_file_def open_read_def Let_def split: option.splits)

text \<open>Bytes that the codec refuses: \<open>get_cached_text\<close> returns \<open>None\<close>.\<close>

lemma get_cached_text_decode_error:
  assumes "get_cached_file safe_join c dirname filename now w = (Inr (Some raw), w')"
    and "decode_utf8 raw = None"
  shows "get_cached_text decode_utf8 safe_join c dirname filename now w = (Inr None, w')"
  using assms by (simp add: get_cached_text_def)

text \<open>
  C5. With \<open>debug\<close> off and a path that \<open>safe_join\<close> accepts: an entry of the key
  younger than \<open>cache_age\<close> is returned as it is, and the world (cache, disk, log of
  reads) is unchanged; without such an entry the file is read once, its content is
  stored under the key with the current time, and returned. So from a cache without a
  young entry, a call and a second call within \<open>cache_age\<close> read the disk exactly
  once, and a third call once \<open>cache_age\<close> has passed reads the disk a second time
  and puts the content then on disk in place of the cached bytes.
\<close>

theorem C5_cache_ttl:
  assumes "\<not> debug c" and "safe_join dirname filename = Some filepath" and "filepath \<noteq> []"
  shows
   "(map_of (cache w) (cache_key dirname filename) = Some (inserted_at, content) \<and>
     now - inserted_at < cache_age c \<longrightarrow>
       get_cached_file safe_join c dirname filename now w = (Inr (Some content), w)) \<and>
    ((\<forall>t0 old. map_of (cache w) (cache_key dirname filename) = Some (t0, old) \<longrightarrow>
         \<not> now - t0 < cache_age c) \<and>
     map_of (fs w) filepath = Some (File ret) \<longrightarrow>
       get_cached_file safe_join c dirname filename now w =
         (Inr (Some ret),
          w\<lparr>disk_reads := disk_reads w @ [filepath],
            cache := dict_set (cache w) (cache_key dirname filename) (now, ret)\<rparr>)) \<and>
    ((\<forall>t0 old. map_of (cache w) (cache_key dirname filename) = Some (t0, old) \<longrightarrow>
         \<not> now - t0 < cache_age c) \<and>
     map_of (fs w) filepath = Some (File ret) \<and>
     now' - now < cache_age c \<and> \<not> now'' - now < cache_age c \<and>
     map_of fs' filepath = Some (File ret') \<longrightarrow>
       (let (r1, w1) = get_cached_file safe_join c dirname filename now w;
            (r2, w2) = get_cached_file safe_join c dirname filename now' w1;
            (r3, w3) = get_cached_file safe_join c dirname filename now'' (w2\<lparr>fs := fs'\<rparr>)
        in r1 = Inr (Some ret) \<and> r2 = Inr (Some ret) \<and>
           disk_reads w2 = disk_reads w @ [filepath] \<and>
           r3 = Inr (Some ret') \<and>
           disk_reads w3 = disk_reads w @ [filepath, filepath] \<and>
           map_of (cache w3) (cache_key dirname filename) = Some (now'', ret')))"
proof (intro conjI impI)
  assume "map_of (cache w) (cache_key dirname filename) = Some (inserted_at, content) \<and>
     now - inserted_at < cache_age c"
  with assms show "get_cached_file safe_join c dirname filename now w = (Inr (Some content), w)"
    by (simp add: get_cached_file_hit)
next
  assume "(\<forall>t0 old. map_of (cache w) (cache_key dirname filename) = Some (t0, old) \<longrightarrow>
         \<not> now - t0 < cache_age c) \<and>
     map_of (fs w) filepath = Some (File ret)"
  with assms show "get_cached_file safe_join c dirname filename now w =
         (Inr (Some ret),
          w\<lparr>disk_reads := disk_reads w @ [filepath],
            cache := dict_set (cache w) (cache_key dirname filename) (now, ret)\<rparr>)"
    by (simp add: get_cached_file_miss)
next
  let ?k = "cache_key dirname filename"
  assume a: "(\<forall>t0 old. map_of (cache w) ?k = Some (t0, old) \<longrightarrow> \<not> now - t0 < cache_age c) \<and>
     map_of (fs w) filepath = Some (File ret) \<and>
     now' - now < cache_age c \<and> \<not> now'' - now < cache_age c \<and>
     map_of fs' filepath = Some (File ret')"
  let ?w1 = "w\<lparr>disk_reads := disk_reads w @ [filepath],
               cache := dict_set (cache w) ?k (now, ret)\<rparr>"
  have g1: "get_cached_file safe_join c dirname filename now w = (Inr (Some ret), ?w1)"
    using assms a by (simp add: get_cached_file_miss)
  have k1: "map_of (cache ?w1) ?k = Some (now, ret)"
    by (simp add: map_of_dict_set)
  have g2: "get_cached_file safe_join c dirname filename now' ?w1 = (Inr (Some ret), ?w1)"
    using assms a k1 by (simp add: get_cached_file_hit)
  let ?w2 = "?w1\<lparr>fs := fs'\<rparr>"
  have k2: "\<forall>t0 old. map_of (cache ?w2) ?k = Some (t0, old) \<longrightarrow> \<not> now'' - t0 < cache_age c"
    using a by (simp add: map_of_dict_set)
  have f2: "map_of (fs ?w2) filepath = Some (File ret')"
    using a by simp
  have g3: "get_cached_file safe_join c dirname filename now'' ?w2 =
     (Inr (Some ret'),
      ?w2\<lparr>disk_reads := disk_reads ?w2 @ [filepath],
          cache := dict_set (cache ?w2) ?k (now'', ret')\<rparr>)"
    using assms(1-3) k2 f2 by (rule get_cached_file_miss)
  show "(let (r1, w1) = get_cached_file safe_join c dirname filename now w;
            (r2, w2) = get_cached_file safe_join c dirname filename now' w1;
            (r3, w3) = get_cached_file safe_join c dirname filename now'' (w2\<lparr>fs := fs'\<rparr>)
        in r1 = Inr (Some ret) \<and> r2 = Inr (Some ret) \<and>
           disk_reads w2 = disk_reads w @ [filepath] \<and>
           r3 = Inr (Some ret') \<and>
           disk_reads w3 = disk_reads w @ [filepath, filepath] \<and>
           map_of (cache w3) ?k = Some (now'', ret'))"
    by (simp add: g1 g2 g3 map_of_dict_set)
qed

theorem C5_cache_ttl_witness:
  "\<not> debug example_config \<and>
   example_join ''static'' ''a.css'' = Some ''/srv/static/a.css'' \<and>
   get_cached_file example_join example_config ''static'' ''a.css'' 1500
       (example_world\<lparr>cache := [(cache_key ''static'' ''a.css'', (1000, [7]))]\<rparr>) =
     (Inr (Some [7]), example_world\<lparr>cache := [(cache_key ''static'' ''a.css'', (1000, [7]))]\<rparr>) \<and>
   (let (r1, w1) = get_cached_file example_join example_config ''static'' ''a.css'' 1000
                     example_world;
        (r2, w2) = get_cached_file example_join example_config ''static'' ''a.css'' 1500 w1;
        (r3, w3) = get_cached_file example_join example_config ''static'' ''a.css'' 2200
                     (w2\<lparr>fs := [(''/srv/static/a.css'', File [9])]\<rparr>)
    in r1 = Inr (Some [1, 2, 3]) \<and> r2 = Inr (Some [1, 2, 3]) \<and>
       disk_reads w2 = [''/srv/static/a.css''] \<and>
       r3 = Inr (Some [9]) \<and>
       disk_reads w3 = [''/srv/static/a.css'', ''/srv/static/a.css''] \<and>
       map_of (cache w3) (cache_key ''static'' ''a.css'') = Some (2200, [9]))"
proof -
  have d: "\<not> debug example_config"
    by (simp add: example_config_def)
  have j: "example_join ''static'' ''a.css'' = Some ''/srv/static/a.css''"
    by (simp add: example_join_def)
  have n: "''/srv/static/a.css'' \<noteq> []"
    by simp
  let ?hot = "example_world\<lparr>cache := [(cache_key ''static'' ''a.css'', (1000, [7]))]\<rparr>"
  have hit: "map_of (cache ?hot) (cache_key ''static'' ''a.css'') = Some (1000, [7]) \<and>
      1500 - 1000 < cache_age example_config"
    by (simp add: example_config_def)
  have cold: "(\<forall>t0 old. map_of (cache example_world) (cache_key ''static'' ''a.css'') =
        Some (t0, old) \<longrightarrow> \<not> 1000 - t0 < cache_age example_config) \<and>
      map_of (fs example_world) ''/srv/static/a.css'' = Some (File [1, 2, 3]) \<and>
      (1500::real) - 1000 < cache_age example_config \<and>
      \<not> (2200::real) - 1000 < cache_age example_config \<and>
      map_of [(''/srv/static/a.css'', File [9])] ''/srv/static/a.css'' = Some (File [9])"
    by (simp add: example_world_def example_config_def)
  note h = C5_cache_ttl [where safe_join = example_join and dirname = "''static''"
      and filename = "''a.css''" and w = ?hot and inserted_at = 1000 and content = "[7]"
      and now = 1500, OF d j n, THEN conjunct1, rule_format, OF hit]
  note s = C5_cache_ttl [where safe_join = example_join and dirname = "''static''"
      and filename = "''a.css''" and w = example_world and now = 1000 and ret = "[1, 2, 3]"
      and now' = 1500 and now'' = 2200 and fs' = "[(''/srv/static/a.css'', File [9])]"
      and ret' = "[9]", OF d j n, THEN conjunct2, THEN conjunct2, rule_format, OF cold]
  have r: "disk_reads example_world = []"
    by (simp add: example_world_def)
  from d j h s show ?thesis
    by (simp add: r)
qed

subsection \<open>A directory in place of a file\<close>

text \<open>
  C7, at the input where the source departs from it: the path names a directory.
  \<open>get_cached_file\<close> does not return \<open>None\<close>; \<open>IsADirectoryError\<close> escapes,
  from \<open>get_cached_text\<close> as well, while a missing file gives \<open>None\<close>.
\<close>

theorem C7_directory_raises:
  "example_join ''static'' ''img'' = Some ''/srv/static/img'' \<and>
   map_of (fs example_world) ''/srv/static/img'' = Some Directory \<and>
   get_cached_file example_join example_config ''static'' ''img'' 1000 example_world =
     (Inl IsADirectoryError, example_world\<lparr>disk_reads := [''/srv/static/img'']\<rparr>) \<and>
   get_cached_text (\<lambda>raw. None) example_join example_config ''static'' ''img'' 1000 example_world =
     (Inl IsADirectoryError, example_world\<lparr>disk_reads := [''/srv/static/img'']\<rparr>) \<and>
   get_cached_file example_join example_config ''static'' ''none.css'' 1000 example_world =
     (Inr None, example_world\<lparr>disk_reads := [''/srv/static/none.css'']\<rparr>)"
  by (simp add: get_cached_file_def get_cached_text_def open_read_def example_join_def
      example_config_def example_world_def cache_key_def Let_def)

subsection \<open>Merging the fields of a device\<close>

text \<open>
  What \<open>deep_merge_dict\<close> stores under a key, for a new mapping without a repeated
  key: the old value where the new mapping lacks the key, the recursive merge where both
  values are mappings, and the new value otherwise.
\<close>

lemma deep_merge_dict_lookup:
  "distinct (map fst new) \<Longrightarrow>
   map_of (deep_merge_dict base new) k =
     (case map_of new k of
        None \<Rightarrow> map_of base k
      | Some v \<Rightarrow>
          Some (case map_of base k of
                  Some (JObj old) \<Rightarrow>
                    (case v of JObj n \<Rightarrow> JObj (deep_merge_dict old n) | _ \<Rightarrow> v)
                | _ \<Rightarrow> v))"
proof (induction base new rule: deep_merge_dict.induct)
  case (1 base)
  then show ?case by simp
next
  case (2 base k' v rest)
  let ?v' = "case map_of base k' of
               Some (JObj old) \<Rightarrow>
                 (case v of JObj new \<Rightarrow> JObj (deep_merge_dict old new) | _ \<Rightarrow> v)
             | _ \<Rightarrow> v"
  from "2.prems" have d: "distinct (map fst rest)" and n: "map_of rest k' = None"
    by (simp_all add: map_of_eq_None_iff)
  note IH = "2.IH"(2) [OF d]
  show ?case
  proof (cases "k = k'")
    case True
    have "map_of (deep_merge_dict base ((k', v) # rest)) k' = Some ?v'"
      by (simp only: deep_merge_dict.simps IH [unfolded True] n option.case map_of_dict_set
          fun_upd_same)
    then show ?thesis
      by (simp add: True)
  next
    case False
    then have e: "map_of (dict_set base k' ?v') k = map_of base k"
      by (simp add: map_of_dict_set)
    from False have r: "map_of ((k', v) # rest) k = map_of rest k"
      by simp
    show ?thesis
      by (cases "map_of rest k") (simp_all only: deep_merge_dict.simps IH e r option.case)
  qed
qed



lemma device_set_creates_raises:
  assumes "i \<noteq> []" and "device_get s i = None" and "truthy show_name"
    and "merge_none fields' = Inl e"
  shows "device_set merge_none (Some i) show_name using' status' fields' now s = (Inl e, s)"
  using assms
  by (auto simp: device_set_def device_get_def Let_def call_deep_merge_dict_def
      split: option.splits)




end
